theory Spec2Isabelle
  imports Complex_Main "HOL-Library.Sublist"
begin

section \<open>JavaScript values of the configuration surface\<close>

text \<open>
  A JavaScript number is a finite value, one of the two infinities or NaN.
  Finite values are modelled as reals (rounding of doubles is not modelled).
  Every comparison with NaN is false.
\<close>

datatype jsnum = Finite real | PosInfinity | NegInfinity | NaN

datatype jsval = Undefined | Null | Num jsnum | Str string | Bool bool | Object

text \<open>\<^verbatim>\<open>typeof v === 'number'\<close>\<close>

fun typeof_number :: "jsval \<Rightarrow> bool" where
  "typeof_number (Num n) = True"
| "typeof_number v = False"

text \<open>\<^verbatim>\<open>n <= 0\<close> on a value whose \<^verbatim>\<open>typeof\<close> is \<^verbatim>\<open>'number'\<close>\<close>

fun num_le_zero :: "jsnum \<Rightarrow> bool" where
  "num_le_zero (Finite r) = (r \<le> 0)"
| "num_le_zero PosInfinity = False"
| "num_le_zero NegInfinity = True"
| "num_le_zero NaN = False"

fun num_gt_zero :: "jsnum \<Rightarrow> bool" where
  "num_gt_zero (Finite r) = (0 < r)"
| "num_gt_zero PosInfinity = True"
| "num_gt_zero NegInfinity = False"
| "num_gt_zero NaN = False"

section \<open>Page options (types.ts)\<close>

datatype margin_unit = CM | INCHES

datatype spacing_unit = PTS

record margin_config =
  margin_unit :: margin_unit
  margin_value :: real

record page_margins =
  top :: margin_config
  bottom :: margin_config
  left :: margin_config
  right :: margin_config

record spacing_config =
  spacing_unit :: spacing_unit
  spacing_value :: real

record paragraph_spacing_config =
  before :: spacing_config
  after :: spacing_config

record page_layout_config =
  margins :: "page_margins option"
  paragraphSpacing :: "paragraph_spacing_config option"

datatype page_number_position = PosTop | PosBottom

datatype page_number_alignment = AlignLeft | AlignCenter | AlignRight

record page_number_config =
  pn_show :: bool
  pn_showCount :: bool
  pn_showOnFirstPage :: bool
  pn_position :: "page_number_position option"
  pn_alignment :: "page_number_alignment option"

text \<open>
  \<^verbatim>\<open>PageOptions\<close>. The two required dimensions are kept as raw JavaScript values,
  since \<^verbatim>\<open>onBeforeCreate\<close> inspects them at run time; an optional field is
  \<open>None\<close> when it is \<^verbatim>\<open>undefined\<close>.
\<close>

record page_options =
  bodyHeight :: jsval
  bodyWidth :: jsval
  bodyPadding :: "real option"
  headerHeight :: "real option"
  footerHeight :: "real option"
  pageLayout :: "page_layout_config option"
  pageNumber :: "page_number_config option"
  types :: "unit list option"
  headerData :: "unit list option"
  footerData :: "unit list option"

definition half_inch :: margin_config where
  "half_inch = \<lparr>margin_unit = INCHES, margin_value = 1/2\<rparr>"

definition six_pts :: spacing_config where
  "six_pts = \<lparr>spacing_unit = PTS, spacing_value = 6\<rparr>"

definition DEFAULT_PAGE_OPTIONS :: page_options where
  "DEFAULT_PAGE_OPTIONS =
     \<lparr>bodyHeight = Undefined, bodyWidth = Undefined,
      bodyPadding = Some 0, headerHeight = Some 30, footerHeight = Some 30,
      pageLayout = Some
        \<lparr>margins = Some \<lparr>top = half_inch, bottom = half_inch, left = half_inch, right = half_inch\<rparr>,
         paragraphSpacing = Some \<lparr>before = six_pts, after = six_pts\<rparr>\<rparr>,
      pageNumber = Some
        \<lparr>pn_show = False, pn_showCount = False, pn_showOnFirstPage = False,
         pn_position = None, pn_alignment = None\<rparr>,
      types = Some [], headerData = Some [], footerData = Some []\<rparr>"

section \<open>Initialisation of the extension (page-extension.ts)\<close>

text \<open>\<^verbatim>\<open>a ?? b\<close> on optional values\<close>

definition nullish :: "'a option \<Rightarrow> 'a \<Rightarrow> 'a" where
  "nullish a b = (case a of Some x \<Rightarrow> x | None \<Rightarrow> b)"

definition merge_side ::
  "page_layout_config \<Rightarrow> page_options \<Rightarrow> (page_margins \<Rightarrow> margin_config) \<Rightarrow> margin_config" where
  "merge_side u defaults side =
     nullish (map_option side (margins u))
       (nullish (map_option side (Option.bind (pageLayout defaults) margins)) half_inch)"

definition merge_spacing ::
  "page_layout_config \<Rightarrow> page_options \<Rightarrow> (paragraph_spacing_config \<Rightarrow> spacing_config) \<Rightarrow> spacing_config" where
  "merge_spacing u defaults part =
     nullish (map_option part (paragraphSpacing u))
       (nullish (map_option part (Option.bind (pageLayout defaults) paragraphSpacing)) six_pts)"

definition deepMerge :: "page_options \<Rightarrow> page_options \<Rightarrow> page_options" where
  "deepMerge defaults userOptions =
     (let r1 = (case pageLayout userOptions of
                  None \<Rightarrow> defaults
                | Some u \<Rightarrow> defaults\<lparr>pageLayout := Some
                    \<lparr>margins = Some \<lparr>top = merge_side u defaults top,
                                      bottom = merge_side u defaults bottom,
                                      left = merge_side u defaults left,
                                      right = merge_side u defaults right\<rparr>,
                     paragraphSpacing = Some \<lparr>before = merge_spacing u defaults before,
                                               after = merge_spacing u defaults after\<rparr>\<rparr>\<rparr>);
          r2 = (case pageNumber userOptions of
                  None \<Rightarrow> r1
                | Some n \<Rightarrow> r1\<lparr>pageNumber := Some
                    \<lparr>pn_show = pn_show n, pn_showCount = pn_showCount n,
                     pn_showOnFirstPage = pn_showOnFirstPage n,
                     pn_position = (case pn_position n of
                                      Some p \<Rightarrow> Some p
                                    | None \<Rightarrow> Option.bind (pageNumber defaults) pn_position),
                     pn_alignment = (case pn_alignment n of
                                      Some a \<Rightarrow> Some a
                                    | None \<Rightarrow> Option.bind (pageNumber defaults) pn_alignment)\<rparr>\<rparr>);
          r3 = (if bodyHeight userOptions \<noteq> Undefined
                then r2\<lparr>bodyHeight := bodyHeight userOptions\<rparr> else r2);
          r4 = (if bodyWidth userOptions \<noteq> Undefined
                then r3\<lparr>bodyWidth := bodyWidth userOptions\<rparr> else r3);
          r5 = (case bodyPadding userOptions of
                  Some v \<Rightarrow> r4\<lparr>bodyPadding := Some v\<rparr> | None \<Rightarrow> r4);
          r6 = (case headerHeight userOptions of
                  Some v \<Rightarrow> r5\<lparr>headerHeight := Some v\<rparr> | None \<Rightarrow> r5);
          r7 = (case footerHeight userOptions of
                  Some v \<Rightarrow> r6\<lparr>footerHeight := Some v\<rparr> | None \<Rightarrow> r6);
          r8 = (case types userOptions of
                  Some v \<Rightarrow> r7\<lparr>types := Some v\<rparr> | None \<Rightarrow> r7);
          r9 = (case headerData userOptions of
                  Some v \<Rightarrow> r8\<lparr>headerData := Some v\<rparr> | None \<Rightarrow> r8)
      in (case footerData userOptions of
            Some v \<Rightarrow> r9\<lparr>footerData := Some v\<rparr> | None \<Rightarrow> r9))"

text \<open>The four errors \<^verbatim>\<open>onBeforeCreate\<close> throws, one per check, in the order of the checks.\<close>

datatype config_error =
    BodyHeightRequired
  | BodyWidthRequired
  | BodyHeightNotPositive
  | BodyWidthNotPositive

text \<open>\<^verbatim>\<open>v === undefined || v === null\<close>\<close>

definition is_missing :: "jsval \<Rightarrow> bool" where
  "is_missing v = (v = Undefined \<or> v = Null)"

text \<open>\<^verbatim>\<open>typeof v !== 'number' || v <= 0\<close>\<close>

fun not_positive_number :: "jsval \<Rightarrow> bool" where
  "not_positive_number (Num n) = num_le_zero n"
| "not_positive_number v = True"

text \<open>
  \<^verbatim>\<open>PageExtension.onBeforeCreate\<close>: a thrown error is \<open>Inl\<close>; otherwise the options
  the extension keeps. The measuring iframe built afterwards by
  \<^verbatim>\<open>buildComputedHtml\<close> is a DOM effect and is not part of the model.
\<close>

definition onBeforeCreate :: "page_options \<Rightarrow> config_error + page_options" where
  "onBeforeCreate options =
     (if is_missing (bodyHeight options) then Inl BodyHeightRequired
      else if is_missing (bodyWidth options) then Inl BodyWidthRequired
      else if not_positive_number (bodyHeight options) then Inl BodyHeightNotPositive
      else if not_positive_number (bodyWidth options) then Inl BodyWidthNotPositive
      else Inr (deepMerge DEFAULT_PAGE_OPTIONS options))"

text \<open>The vocabulary of the configuration contract.\<close>

text \<open>A value is non-numeric when it is not a number: any value of another type, and NaN.\<close>

fun non_numeric :: "jsval \<Rightarrow> bool" where
  "non_numeric (Num NaN) = True"
| "non_numeric (Num n) = False"
| "non_numeric v = True"

fun le_zero :: "jsval \<Rightarrow> bool" where
  "le_zero (Num n) = num_le_zero n"
| "le_zero v = False"

fun positive_number :: "jsval \<Rightarrow> bool" where
  "positive_number (Num n) = num_gt_zero n"
| "positive_number v = False"

definition invalid_dimension :: "jsval \<Rightarrow> bool" where
  "invalid_dimension v = (is_missing v \<or> non_numeric v \<or> le_zero v)"

definition throws :: "'e + 'a \<Rightarrow> bool" where
  "throws r = (case r of Inl e \<Rightarrow> True | Inr v \<Rightarrow> False)"

section \<open>Page state (types.ts)\<close>

text \<open>
  A transaction's meta record: a key that was never set reads \<^verbatim>\<open>undefined\<close>
  (\<open>None\<close>); a stored value is \<^verbatim>\<open>null\<close> or a boolean (the flags are typed
  \<^verbatim>\<open>boolean\<close>).
\<close>

datatype meta_value = MetaNull | MetaBool bool

type_synonym meta = "string \<Rightarrow> meta_value option"

definition getMeta :: "meta \<Rightarrow> string \<Rightarrow> meta_value option" where
  "getMeta m key = m key"

text \<open>\<^verbatim>\<open>tr.getMeta(key) as boolean ?? false\<close>\<close>

definition meta_flag :: "meta \<Rightarrow> string \<Rightarrow> bool" where
  "meta_flag m key =
     (case getMeta m key of None \<Rightarrow> False | Some MetaNull \<Rightarrow> False | Some (MetaBool b) \<Rightarrow> b)"

record PageState =
  bodyOptions :: page_options
  deleting :: bool
  inserting :: bool
  splitPage :: bool

definition transform :: "PageState \<Rightarrow> meta \<Rightarrow> PageState" where
  "transform s tr =
     (let splitPage' = meta_flag tr ''splitPage'';
          inserting' = meta_flag tr ''inserting'';
          deleting' = meta_flag tr ''deleting''
      in \<lparr>bodyOptions = bodyOptions s, deleting = deleting',
          inserting = inserting', splitPage = splitPage'\<rparr>)"

section \<open>Node names (node-names.ts)\<close>

definition PARAGRAPH :: string where "PARAGRAPH = ''paragraph''"
definition PAGE :: string where "PAGE = ''page''"
definition HEADING :: string where "HEADING = ''heading''"
definition BULLETLIST :: string where "BULLETLIST = ''bulletList''"
definition ORDEREDLIST :: string where "ORDEREDLIST = ''orderedList''"
definition LISTITEM :: string where "LISTITEM = ''listItem''"
definition CASSIE_BLOCK :: string where "CASSIE_BLOCK = ''Node''"
definition EXTEND :: string where "EXTEND = ''Extend''"
definition CASSIE_BLOCK_EXTEND :: string where "CASSIE_BLOCK_EXTEND = CASSIE_BLOCK @ EXTEND"

section \<open>The document tree of the host editor\<close>

text \<open>
  The attributes the engine reads and writes. \<open>None\<close> is an attribute that is absent
  (\<^verbatim>\<open>undefined\<close>) or \<^verbatim>\<open>null\<close>.
\<close>

record node_attrs =
  attr_id :: "string option"
  attr_extend :: "bool option"
  attr_start :: "nat option"
  attr_pageNumber :: "nat option"

definition no_attrs :: node_attrs where
  "no_attrs = \<lparr>attr_id = None, attr_extend = None, attr_start = None, attr_pageNumber = None\<rparr>"

text \<open>
  A node is a run of text, a leaf of the schema (no content, one token) or a node with
  content (an opening token, the children, a closing token).
\<close>

datatype pmnode =
    TextNode string
  | LeafNode string node_attrs
  | BlockNode string node_attrs "pmnode list"

fun type_name :: "pmnode \<Rightarrow> string" where
  "type_name (TextNode s) = ''text''"
| "type_name (LeafNode t a) = t"
| "type_name (BlockNode t a kids) = t"

fun attrs :: "pmnode \<Rightarrow> node_attrs" where
  "attrs (TextNode s) = no_attrs"
| "attrs (LeafNode t a) = a"
| "attrs (BlockNode t a kids) = a"

fun children :: "pmnode \<Rightarrow> pmnode list" where
  "children (TextNode s) = []"
| "children (LeafNode t a) = []"
| "children (BlockNode t a kids) = kids"

fun isText :: "pmnode \<Rightarrow> bool" where
  "isText (TextNode s) = True"
| "isText n = False"

fun nodeSize :: "pmnode \<Rightarrow> nat" where
  "nodeSize (TextNode s) = length s"
| "nodeSize (LeafNode t a) = 1"
| "nodeSize (BlockNode t a kids) = 2 + sum_list (map nodeSize kids)"

text \<open>\<^verbatim>\<open>fragment.size\<close> and \<^verbatim>\<open>node.content.size\<close>\<close>

definition fragment_size :: "pmnode list \<Rightarrow> nat" where
  "fragment_size kids = sum_list (map nodeSize kids)"

definition content_size :: "pmnode \<Rightarrow> nat" where
  "content_size n = fragment_size (children n)"

definition childCount :: "pmnode \<Rightarrow> nat" where
  "childCount n = length (children n)"

definition firstChild :: "pmnode \<Rightarrow> pmnode option" where
  "firstChild n = (case children n of [] \<Rightarrow> None | c # cs \<Rightarrow> Some c)"

definition lastChild :: "pmnode \<Rightarrow> pmnode option" where
  "lastChild n = (if children n = [] then None else Some (last (children n)))"

fun textContent :: "pmnode \<Rightarrow> string" where
  "textContent (TextNode s) = s"
| "textContent (LeafNode t a) = []"
| "textContent (BlockNode t a kids) = concat (map textContent kids)"

text \<open>\<^verbatim>\<open>s.includes(sub)\<close>\<close>

definition str_includes :: "string \<Rightarrow> string \<Rightarrow> bool" where
  "str_includes s sub = sublist sub s"

text \<open>
  \<^verbatim>\<open>doc.descendants(f)\<close> with a callback that always asks to go on: every node below
  the root in document order, with the position right before it.
\<close>

fun descendants_from :: "pmnode list \<Rightarrow> nat \<Rightarrow> (pmnode \<times> nat) list" where
  "descendants_from [] off = []"
| "descendants_from (TextNode s # rest) off =
     (TextNode s, off) # descendants_from rest (off + length s)"
| "descendants_from (LeafNode t a # rest) off =
     (LeafNode t a, off) # descendants_from rest (off + 1)"
| "descendants_from (BlockNode t a kids # rest) off =
     (BlockNode t a kids, off) # descendants_from kids (off + 1)
       @ descendants_from rest (off + nodeSize (BlockNode t a kids))"

definition descendants :: "pmnode \<Rightarrow> (pmnode \<times> nat) list" where
  "descendants doc = descendants_from (children doc) 0"

text \<open>
  A resolved position. Its path has one entry per depth, from the root down: the node
  at that depth, the index of the child that holds (or follows) the position, and the
  position right before that child.
\<close>

type_synonym path_entry = "pmnode \<times> nat \<times> nat"

text \<open>
  \<open>resolve_in parent kids i off p\<close>: the children \<open>kids\<close> of
  \<open>parent\<close> start with the child of index \<open>i\<close>, which lies at
  position \<open>off\<close>. A position on a boundary between children, or inside a text
  node, ends the path; a position strictly inside a child with content goes on in that
  child.
\<close>

fun resolve_in :: "pmnode \<Rightarrow> pmnode list \<Rightarrow> nat \<Rightarrow> nat \<Rightarrow> nat \<Rightarrow> path_entry list" where
  "resolve_in parent [] i off p = [(parent, i, off)]"
| "resolve_in parent (TextNode s # rest) i off p =
     (if p \<le> off then [(parent, i, off)]
      else if off + length s \<le> p then resolve_in parent rest (Suc i) (off + length s) p
      else [(parent, i, off)])"
| "resolve_in parent (LeafNode t a # rest) i off p =
     (if p \<le> off then [(parent, i, off)]
      else resolve_in parent rest (Suc i) (off + 1) p)"
| "resolve_in parent (BlockNode t a kids # rest) i off p =
     (if p \<le> off then [(parent, i, off)]
      else if off + nodeSize (BlockNode t a kids) \<le> p
      then resolve_in parent rest (Suc i) (off + nodeSize (BlockNode t a kids)) p
      else (parent, i, off) # resolve_in (BlockNode t a kids) kids 0 (off + 1) p)"

datatype error = RangeError

text \<open>\<^verbatim>\<open>doc.resolve(pos)\<close>: a position beyond the document raises a RangeError.\<close>

definition resolve :: "pmnode \<Rightarrow> nat \<Rightarrow> error + path_entry list" where
  "resolve doc p =
     (if p > content_size doc then Inl RangeError
      else Inr (resolve_in doc (children doc) 0 0 p))"

text \<open>The accessors of a resolved position: \<^verbatim>\<open>depth\<close>, \<^verbatim>\<open>node(d)\<close>, \<^verbatim>\<open>index(d)\<close>, \<^verbatim>\<open>start(d)\<close>.\<close>

definition path_depth :: "path_entry list \<Rightarrow> nat" where
  "path_depth path = length path - 1"

definition path_node :: "path_entry list \<Rightarrow> nat \<Rightarrow> pmnode" where
  "path_node path d = fst (path ! d)"

definition path_index :: "path_entry list \<Rightarrow> nat \<Rightarrow> nat" where
  "path_index path d = fst (snd (path ! d))"

definition path_start :: "path_entry list \<Rightarrow> nat \<Rightarrow> nat" where
  "path_start path d = (if d = 0 then 0 else snd (snd (path ! (d - 1))) + 1)"

section \<open>Split context (computed.ts)\<close>

text \<open>Heights are pixel values; a boundary is a position and a depth.\<close>

record SplitInfo =
  pos :: nat
  depth :: int

record SplitContext =
  doc :: pmnode
  accumulatedHeight :: real
  pageBoundary :: "SplitInfo option"
  height :: real
  paragraphDefaultHeight :: real

definition newSplitContext :: "pmnode \<Rightarrow> real \<Rightarrow> real \<Rightarrow> SplitContext" where
  "newSplitContext d h dh =
     \<lparr>doc = d, accumulatedHeight = 0, pageBoundary = None, height = h,
      paragraphDefaultHeight = dh\<rparr>"

definition getHeight :: "SplitContext \<Rightarrow> real" where
  "getHeight c = height c"

definition getAccumulatedHeight :: "SplitContext \<Rightarrow> real" where
  "getAccumulatedHeight c = accumulatedHeight c"

definition getDefaultHeight :: "SplitContext \<Rightarrow> real" where
  "getDefaultHeight c = paragraphDefaultHeight c"

definition isOverflow :: "SplitContext \<Rightarrow> real \<Rightarrow> bool" where
  "isOverflow c h = (accumulatedHeight c + h > height c)"

definition isOverflowTest :: "SplitContext \<Rightarrow> real \<Rightarrow> bool" where
  "isOverflowTest c h =
     (let totalHeight = accumulatedHeight c + h
      in totalHeight > height c \<and> totalHeight - height c \<ge> paragraphDefaultHeight c)"

definition addHeight :: "SplitContext \<Rightarrow> real \<Rightarrow> SplitContext" where
  "addHeight c h = c\<lparr>accumulatedHeight := accumulatedHeight c + h\<rparr>"

definition setBoundary :: "SplitContext \<Rightarrow> nat \<Rightarrow> int \<Rightarrow> SplitContext" where
  "setBoundary c p d = c\<lparr>pageBoundary := Some \<lparr>pos = p, depth = d\<rparr>\<rparr>"

text \<open>
  \<^verbatim>\<open>splitResolve\<close>: the path of the resolved position, cut into chunks of three
  (node, index, offset), one chunk per depth; a path of three elements is its only chunk.
\<close>

definition splitResolve :: "SplitContext \<Rightarrow> nat \<Rightarrow> error + path_entry list" where
  "splitResolve c p = resolve (doc c) p"

text \<open>\<^verbatim>\<open>chunks[chunks.length - 2]\<close>, which is \<^verbatim>\<open>undefined\<close> when there is one chunk only.\<close>

definition parent_chunk :: "path_entry list \<Rightarrow> path_entry option" where
  "parent_chunk chunks =
     (if length chunks < 2 then None else Some (chunks ! (length chunks - 2)))"

text \<open>
  The decision function of the dispatch table for a paragraph. The measured height of the
  node's DOM element (\<^verbatim>\<open>getDomHeight(dom)\<close>) is \<open>pHeight\<close>; \<open>point\<close> is what
  \<^verbatim>\<open>getBreakPos\<close> answers for the node (\<open>None\<close> for \<^verbatim>\<open>null\<close>); \<open>isFirst\<close> is
  \<^verbatim>\<open>parent?.firstChild === node\<close>. The result is the updated context and the returned flag.
\<close>

definition defaultNodesComputed_PARAGRAPH ::
  "SplitContext \<Rightarrow> real \<Rightarrow> nat option \<Rightarrow> bool \<Rightarrow> nat \<Rightarrow> error + (SplitContext \<times> bool)" where
  "defaultNodesComputed_PARAGRAPH splitContext pHeight point isFirst p =
     (if \<not> isOverflow splitContext pHeight
      then Inr (addHeight splitContext pHeight, False)
      else
        (case splitResolve splitContext p of
           Inl e \<Rightarrow> Inl e
         | Inr chunks \<Rightarrow>
             (case (if pHeight > getDefaultHeight splitContext then point else None) of
                Some (Suc k) \<Rightarrow>
                  Inr (setBoundary splitContext (p + Suc k) (int (length chunks)), False)
              | _ \<Rightarrow>
                  (if isFirst
                   then (case parent_chunk chunks of
                           Some (n, i, Suc off) \<Rightarrow>
                             Inr (setBoundary splitContext (Suc off) (int (length chunks) - 2), False)
                         | _ \<Rightarrow> Inr (splitContext, False))
                   else Inr (setBoundary splitContext p (int (length chunks) - 1), False)))))"

section \<open>Text-break search (core.ts)\<close>

text \<open>
  \<^verbatim>\<open>s.lastIndexOf(c)\<close>: the index of the last occurrence of \<open>c\<close>, or \<open>-1\<close>.
  The scan runs from the left and remembers the last index seen.
\<close>

fun lastIndexOf_from :: "char \<Rightarrow> string \<Rightarrow> nat \<Rightarrow> int \<Rightarrow> int" where
  "lastIndexOf_from c [] i found = found"
| "lastIndexOf_from c (x # xs) i found =
     lastIndexOf_from c xs (Suc i) (if x = c then int i else found)"

definition lastIndexOf :: "string \<Rightarrow> char \<Rightarrow> int" where
  "lastIndexOf s c = lastIndexOf_from c s 0 (- 1)"

text \<open>
  \<^verbatim>\<open>s.slice(0, n)\<close>: a negative end counts from the end of the string.
\<close>

definition slice0 :: "string \<Rightarrow> int \<Rightarrow> string" where
  "slice0 s n = (if n < 0 then take (nat (int (length s) + n)) s else take (nat n) s)"

text \<open>
  The loop of \<^verbatim>\<open>binarySearchTextBreak\<close> on its three variables. The measuring call
  \<^verbatim>\<open>createAndCalculateHeight(node, [...content.slice(0, indexInContent), text(candidate, marks)], splitContext)\<close>
  depends on the candidate only, everything else being fixed during a search: it is the
  parameter \<open>calc\<close>.
\<close>

function bsearch :: "(string \<Rightarrow> real) \<Rightarrow> real \<Rightarrow> string \<Rightarrow> int \<Rightarrow> int \<Rightarrow> int \<Rightarrow> int" where
  "bsearch calc heightLimit fullText low high validBreak =
     (if low \<le> high then
        (let mid = (low + high) div 2;
             candidate = slice0 fullText mid;
             found = lastIndexOf candidate (CHR '' '')
         in if found < 0 \<and> \<not> int (length candidate) > 7 then 0
            else
              (let lastSpaceIndex = (if found < 0 then int (length candidate) else found);
                   trimmed = slice0 candidate lastSpaceIndex
               in if length trimmed = 0 \<and> \<not> mid > 1 then 0
                  else
                    (let candidate' = (if length trimmed = 0 then slice0 fullText 1 else trimmed);
                         candidateHeight = calc candidate'
                     in if candidateHeight \<le> heightLimit
                        then bsearch calc heightLimit fullText (mid + 1) high
                               (if lastSpaceIndex > 0 then lastSpaceIndex else int (length candidate'))
                        else bsearch calc heightLimit fullText low (mid - 1) validBreak)))
      else validBreak)"
  by pat_completeness auto
termination
  by (relation "measure (\<lambda>(calc, heightLimit, fullText, low, high, validBreak). nat (high - low + 1))")
     auto

declare bsearch.simps [simp del]

definition binarySearchTextBreak :: "(string \<Rightarrow> real) \<Rightarrow> real \<Rightarrow> string \<Rightarrow> int" where
  "binarySearchTextBreak calc heightLimit fullText =
     bsearch calc heightLimit fullText 1 (int (length fullText)) 0"

text \<open>The prefix of the run that one iteration of the search inspects.\<close>

definition inspected :: "string \<Rightarrow> int \<Rightarrow> int \<Rightarrow> string" where
  "inspected fullText low high = slice0 fullText ((low + high) div 2)"

definition has_space :: "string \<Rightarrow> bool" where
  "has_space s = (CHR '' '' \<in> set s)"

text \<open>
  A break offset \<open>b\<close> lies at a space boundary of the run when the character at \<open>b\<close>
  is a space (the break is right before it), or \<open>b = 1\<close> and the run starts with a space.
\<close>

definition at_space_boundary :: "string \<Rightarrow> int \<Rightarrow> bool" where
  "at_space_boundary s b =
     ((0 < b \<and> b < int (length s) \<and> s ! nat b = CHR '' '') \<or>
      (b = 1 \<and> s \<noteq> [] \<and> s ! 0 = CHR '' ''))"

text \<open>A break offset falls inside a word when the characters on both sides of it are not spaces.\<close>

definition inside_word :: "string \<Rightarrow> int \<Rightarrow> bool" where
  "inside_word s b =
     (0 < b \<and> b < int (length s) \<and> s ! nat (b - 1) \<noteq> CHR '' '' \<and> s ! nat b \<noteq> CHR '' '')"

text \<open>What the search may return: nothing, a space boundary, or a space-free prefix longer than 7.\<close>

definition ok_break :: "string \<Rightarrow> int \<Rightarrow> bool" where
  "ok_break s b = (b = 0 \<or> at_space_boundary s b \<or>
      (7 < b \<and> b \<le> int (length s) \<and> \<not> has_space (slice0 s b)))"

section \<open>The pagination orchestrator (computed.ts)\<close>

subsection \<open>Duplicate ids\<close>

datatype operation = Delete nat nat | ChangeId nat

fun op_from :: "operation \<Rightarrow> nat" where
  "op_from (Delete f t) = f"
| "op_from (ChangeId f) = f"

type_synonym node_data = "pmnode \<times> nat"

record scan_state =
  idMap :: "string \<Rightarrow> node_data option"
  operations :: "operation list"

text \<open>\<^verbatim>\<open>!id\<close> for an id that is absent or the empty string\<close>

definition falsy_id :: "string option \<Rightarrow> bool" where
  "falsy_id i = (i = None \<or> i = Some [])"

text \<open>
  The two nodes of a clash: \<^verbatim>\<open>[deleteNode, preserveNode]\<close>.
\<close>

definition delete_and_preserve :: "node_data \<Rightarrow> node_data \<Rightarrow> node_data \<times> node_data" where
  "delete_and_preserve oldNodeData newNodeData =
     (if nodeSize (fst oldNodeData) > nodeSize (fst newNodeData)
      then (oldNodeData, newNodeData)
      else (newNodeData, oldNodeData))"

definition shouldDelete :: "node_data \<Rightarrow> node_data \<Rightarrow> bool" where
  "shouldDelete deleteNode preserveNode =
     (str_includes (textContent (fst preserveNode)) (textContent (fst deleteNode)) \<and>
      length (children (fst deleteNode)) > 0)"

definition clash_operation :: "node_data \<Rightarrow> node_data \<Rightarrow> operation" where
  "clash_operation deleteNode preserveNode =
     (if shouldDelete deleteNode preserveNode
      then Delete (snd deleteNode + 1) (snd deleteNode + nodeSize (fst deleteNode) + 1)
      else ChangeId (snd deleteNode))"

text \<open>
  The callback handed to \<^verbatim>\<open>doc.descendants\<close>: the new state, and whether the walk
  goes on below the node (the callback did not return \<^verbatim>\<open>false\<close>).
\<close>

definition visit :: "scan_state \<Rightarrow> pmnode \<Rightarrow> nat \<Rightarrow> scan_state \<times> bool" where
  "visit st node p =
     (if falsy_id (attr_id (attrs node)) \<or> type_name node = ''text'' then (st, False)
      else
        (let i = the (attr_id (attrs node)) in
         case idMap st i of
           Some oldNodeData \<Rightarrow>
             (let (deleteNode, preserveNode) = delete_and_preserve oldNodeData (node, p)
              in (\<lparr>idMap = (idMap st)(i \<mapsto> preserveNode),
                   operations = operations st @ [clash_operation deleteNode preserveNode]\<rparr>,
                  False))
         | None \<Rightarrow> (st\<lparr>idMap := (idMap st)(i \<mapsto> (node, p))\<rparr>, True)))"

text \<open>
  The walk of \<^verbatim>\<open>doc.descendants\<close>: children in order; below a child only when the
  callback allows it and the child has content.
\<close>

fun scan_nodes :: "scan_state \<Rightarrow> pmnode list \<Rightarrow> nat \<Rightarrow> scan_state" where
  "scan_nodes st [] off = st"
| "scan_nodes st (TextNode s # rest) off =
     scan_nodes (fst (visit st (TextNode s) off)) rest (off + length s)"
| "scan_nodes st (LeafNode t a # rest) off =
     scan_nodes (fst (visit st (LeafNode t a) off)) rest (off + 1)"
| "scan_nodes st (BlockNode t a kids # rest) off =
     scan_nodes
       (if snd (visit st (BlockNode t a kids) off) \<and> fragment_size kids > 0
        then scan_nodes (fst (visit st (BlockNode t a kids) off)) kids (off + 1)
        else fst (visit st (BlockNode t a kids) off))
       rest (off + nodeSize (BlockNode t a kids))"

text \<open>
  The operations \<^verbatim>\<open>removeElementsWithDuplicateId\<close> collects, sorted by \<^verbatim>\<open>from\<close>
  (the sort is stable). They are then replayed on the transaction by the host
  (\<^verbatim>\<open>tr.deleteRange\<close>, \<^verbatim>\<open>tr.setNodeAttribute\<close>).
\<close>

definition duplicate_id_operations :: "pmnode \<Rightarrow> operation list" where
  "duplicate_id_operations d =
     sort_key op_from
       (operations (scan_nodes \<lparr>idMap = Map.empty, operations = []\<rparr> (children d) 0))"

subsection \<open>Merging pages\<close>

text \<open>
  \<^verbatim>\<open>(lastPage?.firstChild?.type === prePage?.lastChild?.type ||
    lastPage?.firstChild?.type.name.includes(EXTEND)) && lastPage?.firstChild?.attrs?.extend\<close>
\<close>

definition canMergeDeep :: "pmnode \<Rightarrow> pmnode \<Rightarrow> bool" where
  "canMergeDeep prePage lastPage =
     ((map_option type_name (firstChild lastPage) = map_option type_name (lastChild prePage) \<or>
       (case firstChild lastPage of
          None \<Rightarrow> False
        | Some f \<Rightarrow> str_includes (type_name f) EXTEND)) \<and>
      (case firstChild lastPage of
         None \<Rightarrow> False
       | Some f \<Rightarrow> attr_extend (attrs f) = Some True))"

text \<open>
  The join depth one iteration of the merge loop chooses. The last and the first page are
  different nodes exactly when the document has more than one page.
\<close>

definition mergeDepth :: "pmnode \<Rightarrow> nat" where
  "mergeDepth d =
     (if childCount d > 1 \<and>
         canMergeDeep (children d ! (childCount d - 2)) (last (children d))
      then 2 else 1)"

text \<open>The position handed to \<^verbatim>\<open>tr.join\<close>: \<^verbatim>\<open>tr.doc.content.size - nodeSize\<close>.\<close>

definition joinPos :: "pmnode \<Rightarrow> nat" where
  "joinPos d =
     content_size d - (case lastChild d of None \<Rightarrow> 0 | Some l \<Rightarrow> nodeSize l)"

text \<open>
  The merge loop. \<^verbatim>\<open>tr.join(pos, depth)\<close> is the host's operation: \<open>join\<close> gives the
  joined document, or \<open>None\<close> when the host refuses the step (it throws). A loop that
  does not end has the value \<open>None\<close> as well.
\<close>

partial_function (option) mergeDefaultDocument ::
  "(pmnode \<Rightarrow> nat \<Rightarrow> nat \<Rightarrow> pmnode option) \<Rightarrow> nat \<Rightarrow> pmnode \<Rightarrow> pmnode option" where
  "mergeDefaultDocument join count d =
     (if childCount d > count
      then Option.bind (join d (joinPos d) (mergeDepth d)) (mergeDefaultDocument join count)
      else Some d)"

subsection \<open>Ordered lists across pages\<close>

text \<open>
  Modelled from the spec: \<^verbatim>\<open>findParentNodeClosestToPos\<close> of \<^verbatim>\<open>utils/node\<close>, which is
  not among the sources. The spec speaks of the ordered list that encloses the split
  position: the deepest ancestor of the position, the root excluded, that satisfies the
  predicate. The answer is its depth; its node and the start of its content are read off
  the path.
\<close>

definition findParentNodeClosestToPos :: "path_entry list \<Rightarrow> (pmnode \<Rightarrow> bool) \<Rightarrow> nat option" where
  "findParentNodeClosestToPos path predicate =
     (case filter (\<lambda>d. predicate (path_node path d)) (rev [1..<length path]) of
        [] \<Rightarrow> None
      | d # ds \<Rightarrow> Some d)"

text \<open>
  The test made for each list item at position \<open>p\<close>: some ancestor of the item, from
  \<^verbatim>\<open>$itemPos.depth\<close> down to depth 1, is an ordered list. The positions come from
  \<^verbatim>\<open>descendants\<close>, so resolving them never raises.
\<close>

definition under_ordered_list :: "pmnode \<Rightarrow> nat \<Rightarrow> bool" where
  "under_ordered_list d p =
     (case resolve d p of
        Inl e \<Rightarrow> False
      | Inr path \<Rightarrow> list_ex (\<lambda>k. type_name (path_node path k) = ORDEREDLIST) (rev [1..<length path]))"

text \<open>\<^verbatim>\<open>totalItemCount\<close> after the walk over the document, for the items from \<open>lo\<close> on.\<close>

definition count_items :: "pmnode \<Rightarrow> nat \<Rightarrow> nat \<Rightarrow> nat" where
  "count_items d lo splitPos =
     length (filter (\<lambda>(node, p). type_name node = LISTITEM \<and> lo \<le> p \<and> p < splitPos \<and>
                                  under_ordered_list d p)
               (descendants d))"

text \<open>
  The walk back to the start of the sequence: while the position right before
  \<open>currentPos\<close> lies in an ordered list, go to the start of that list.
\<close>

function sequence_start :: "pmnode \<Rightarrow> nat \<Rightarrow> error + nat" where
  "sequence_start d currentPos =
     (if currentPos > 0 then
        (case resolve d (currentPos - 1) of
           Inl e \<Rightarrow> Inl e
         | Inr path \<Rightarrow>
             if type_name (path_node path (path_depth path)) = ORDEREDLIST
             then sequence_start d (path_start path (path_depth path))
             else Inr currentPos)
      else Inr currentPos)"
  by pat_completeness auto
termination
proof (relation "measure (\<lambda>(d, currentPos). currentPos)")
  show "wf (measure (\<lambda>(d, currentPos). currentPos))" by simp
next
  fix d :: pmnode and currentPos :: nat and path :: "path_entry list"
  assume positive: "0 < currentPos" and resolved: "resolve d (currentPos - 1) = Inr path"
  have offsets: "snd (snd e) < q"
    if "e \<in> set (butlast (resolve_in parent kids i off q))" for e parent kids i off q
    using that
    by (induction parent kids i off q rule: resolve_in.induct) (auto split: if_splits)
  have "path_start path (path_depth path) \<le> currentPos - 1"
  proof (cases "path_depth path = 0")
    case True
    then show ?thesis by (simp add: path_start_def)
  next
    case False
    from resolved have path: "path = resolve_in d (children d) 0 0 (currentPos - 1)"
      by (auto simp: resolve_def split: if_splits)
    from False have "length path - 2 < length (butlast path)"
      by (simp add: path_depth_def)
    then have "butlast path ! (length path - 2) \<in> set (butlast path)"
      by (rule nth_mem)
    moreover have "butlast path ! (length path - 2) = path ! (length path - 2)"
      using False by (simp add: nth_butlast path_depth_def)
    ultimately have "snd (snd (path ! (length path - 2))) < currentPos - 1"
      using offsets [of _ d "children d" 0 0 "currentPos - 1"] path by simp
    moreover have "path_depth path - 1 = length path - 2"
      by (simp add: path_depth_def)
    ultimately show ?thesis using False by (simp add: path_start_def)
  qed
  with positive show "((d, path_start path (path_depth path)), (d, currentPos))
              \<in> measure (\<lambda>(d, currentPos). currentPos)"
    by simp
qed

declare sequence_start.simps [simp del]

definition calculateOrderedListStart :: "pmnode \<Rightarrow> nat \<Rightarrow> error + nat" where
  "calculateOrderedListStart d splitPos =
     (case resolve d splitPos of
        Inl e \<Rightarrow> Inl e
      | Inr path \<Rightarrow>
          (case findParentNodeClosestToPos path (\<lambda>node. type_name node = ORDEREDLIST) of
             None \<Rightarrow> Inr 1
           | Some k \<Rightarrow>
               if attr_extend (attrs (path_node path k)) = Some True
               then Inr (count_items d 0 splitPos + 1)
               else (case sequence_start d (path_start path k) of
                       Inl e \<Rightarrow> Inl e
                     | Inr currentPos \<Rightarrow> Inr (count_items d currentPos splitPos + 1))))"

text \<open>
  The attributes \<^verbatim>\<open>splitPage\<close> gives to the node \<open>n\<close> it reopens after the cut at
  \<open>splitPos\<close>. \<open>hasNodeType\<close> is the schema's table of node types, \<open>newId\<close> what
  \<^verbatim>\<open>getId()\<close> answers.
\<close>

definition reopened_attrs ::
  "(string \<Rightarrow> bool) \<Rightarrow> pmnode \<Rightarrow> nat \<Rightarrow> pmnode \<Rightarrow> string \<Rightarrow> error + node_attrs" where
  "reopened_attrs hasNodeType d splitPos n newId =
     (if hasNodeType (type_name n @ EXTEND)
      then Inr ((attrs n)\<lparr>attr_id := Some newId\<rparr>)
      else if \<not> falsy_id (attr_id (attrs n)) then
        (let extended = (if attr_extend (attrs n) = Some False
                         then (attrs n)\<lparr>attr_extend := Some True\<rparr> else attrs n)
         in if type_name n = ORDEREDLIST
            then (case calculateOrderedListStart d splitPos of
                    Inl e \<Rightarrow> Inl e
                  | Inr startNumber \<Rightarrow>
                      Inr (extended\<lparr>attr_start := Some startNumber, attr_id := Some newId\<rparr>))
            else Inr (extended\<lparr>attr_id := Some newId\<rparr>))
      else Inr (attrs n))"

subsection \<open>The run of one edit\<close>











section \<open>Concrete inputs\<close>

definition a4_options :: page_options where
  "a4_options = DEFAULT_PAGE_OPTIONS\<lparr>bodyHeight := Num (Finite 1056), bodyWidth := Num (Finite 816),
     pageLayout := None, pageNumber := None\<rparr>"

definition page_node :: "string \<Rightarrow> pmnode list \<Rightarrow> pmnode" where
  "page_node i kids = BlockNode PAGE (no_attrs\<lparr>attr_id := Some i, attr_pageNumber := Some 1\<rparr>) kids"

definition para_node :: "string \<Rightarrow> string \<Rightarrow> pmnode" where
  "para_node i s =
     BlockNode PARAGRAPH (no_attrs\<lparr>attr_id := Some i, attr_extend := Some False\<rparr>)
       (if s = [] then [] else [TextNode s])"

definition doc_node :: "pmnode list \<Rightarrow> pmnode" where
  "doc_node pages = BlockNode ''doc'' no_attrs pages"

definition empty_doc :: pmnode where
  "empty_doc = doc_node [page_node ''p1'' []]"

definition list_item :: "string \<Rightarrow> pmnode list \<Rightarrow> pmnode" where
  "list_item i kids =
     BlockNode LISTITEM (no_attrs\<lparr>attr_id := Some i, attr_extend := Some False\<rparr>) kids"

definition ordered_list :: "string \<Rightarrow> pmnode list \<Rightarrow> pmnode" where
  "ordered_list i kids =
     BlockNode ORDEREDLIST
       (no_attrs\<lparr>attr_id := Some i, attr_extend := Some False, attr_start := Some 1\<rparr>) kids"

text \<open>Two paragraphs that share the id \<open>X\<close>; the second is the larger.\<close>

definition hello_doc :: pmnode where
  "hello_doc =
     doc_node [page_node ''P'' [para_node ''X'' ''Hello'', para_node ''X'' ''Hello world'']]"

text \<open>The scan of \<open>hello_doc\<close> right before it reaches the second paragraph.\<close>

definition hello_scan :: scan_state where
  "hello_scan =
     \<lparr>idMap = [''P'' \<mapsto> (page_node ''P'' [para_node ''X'' ''Hello'', para_node ''X'' ''Hello world''], 0),
               ''X'' \<mapsto> (para_node ''X'' ''Hello'', 1)],
      operations = []\<rparr>"

text \<open>
  A list of three items, the first with a nested list of two items. Item \<open>c\<close> starts at
  position 24.
\<close>

definition nested_list_doc :: pmnode where
  "nested_list_doc =
     doc_node [page_node ''P''
       [ordered_list ''L''
          [list_item ''a'' [para_node ''pa'' ''a'',
                            ordered_list ''M'' [list_item ''x'' [para_node ''px'' ''x''],
                                               list_item ''y'' [para_node ''py'' ''y'']]],
           list_item ''b'' [para_node ''pb'' ''b''],
           list_item ''c'' [para_node ''pc'' ''c'']]]]"

text \<open>The same list without the nested one. Item \<open>c\<close> starts at position 12.\<close>

definition flat_list_doc :: pmnode where
  "flat_list_doc =
     doc_node [page_node ''P''
       [ordered_list ''L''
          [list_item ''a'' [para_node ''pa'' ''a''],
           list_item ''b'' [para_node ''pb'' ''b''],
           list_item ''c'' [para_node ''pc'' ''c'']]]]"

text \<open>A schema without any \<^verbatim>\<open>...Extend\<close> node type.\<close>

definition plain_schema :: "string \<Rightarrow> bool" where
  "plain_schema t = (t \<in> set [''doc'', PAGE, PARAGRAPH, HEADING, BULLETLIST, ORDEREDLIST, LISTITEM, ''text''])"

text \<open>
  Two pages; the second starts with a continuation block of type \<open>NodeExtend\<close> that
  carries the extend flag, the first ends with a paragraph.
\<close>

definition extend_block :: pmnode where
  "extend_block =
     BlockNode CASSIE_BLOCK_EXTEND (no_attrs\<lparr>attr_id := Some ''e'', attr_extend := Some True\<rparr>)
       [para_node ''q'' ''rest'']"

definition extend_doc :: pmnode where
  "extend_doc = doc_node [page_node ''p1'' [para_node ''a'' ''first''], page_node ''p2'' [extend_block]]"

text \<open>Two pages; the second starts with the continuation of the paragraph that ends the first.\<close>

definition continued_paragraph :: pmnode where
  "continued_paragraph =
     BlockNode PARAGRAPH (no_attrs\<lparr>attr_id := Some ''b'', attr_extend := Some True\<rparr>) [TextNode ''world'']"

definition continued_doc :: pmnode where
  "continued_doc =
     doc_node [page_node ''p1'' [para_node ''a'' ''hello ''], page_node ''p2'' [continued_paragraph]]"

text \<open>
  A host join for the examples: depth 1 moves the children of the last page to the end of
  the page before it; depth 2 also joins the two nodes that meet there.
\<close>

definition join_last_pages :: "pmnode \<Rightarrow> nat \<Rightarrow> nat \<Rightarrow> pmnode option" where
  "join_last_pages d p k =
     (case rev (children d) of
        BlockNode t2 a2 kids2 # BlockNode t1 a1 kids1 # front \<Rightarrow>
          (if k = 1
           then Some (BlockNode (type_name d) (attrs d) (rev front @ [BlockNode t1 a1 (kids1 @ kids2)]))
           else (case (rev kids1, kids2) of
                   (BlockNode s1 b1 c1 # r1, BlockNode s2 b2 c2 # r2) \<Rightarrow>
                     Some (BlockNode (type_name d) (attrs d)
                       (rev front @ [BlockNode t1 a1 (rev r1 @ [BlockNode s1 b1 (c1 @ c2)] @ r2)]))
                 | _ \<Rightarrow> None))
      | _ \<Rightarrow> None)"

text \<open>One page whose first child is a paragraph; the paragraph starts at position 1.\<close>

definition one_paragraph_doc :: pmnode where
  "one_paragraph_doc = doc_node [page_node ''p1'' [para_node ''a'' ''a long paragraph'']]"

text \<open>Two pages; the paragraph of the second page starts at position 10.\<close>

definition two_page_doc :: pmnode where
  "two_page_doc =
     doc_node [page_node ''p1'' [para_node ''a'' ''first''],
               page_node ''p2'' [para_node ''b'' ''a long paragraph'']]"







text \<open>A measurement oracle under which a candidate is as high as it is long.\<close>

definition chars_height :: "string \<Rightarrow> real" where
  "chars_height s = real (length s)"

text \<open>A configuration whose height is NaN.\<close>

definition nan_options :: page_options where
  "nan_options = a4_options\<lparr>bodyHeight := Num NaN\<rparr>"

definition idle_state :: PageState where
  "idle_state = \<lparr>bodyOptions = a4_options, deleting = True, inserting = False, splitPage = True\<rparr>"

definition inserting_meta :: meta where
  "inserting_meta = Map.empty(''inserting'' \<mapsto> MetaBool True)"

section \<open>Theorems\<close>

text \<open>
  C9. For every split context and every candidate height \<open>h\<close>, \<open>isOverflow\<close> answers
  true if and only if the accumulated height plus \<open>h\<close> strictly exceeds the pagination
  budget; the accumulated height of a fresh context to which the heights \<open>hs\<close> were added
  is their sum.
\<close>

theorem isOverflow_iff:
  "isOverflow c h = (getAccumulatedHeight c + h > getHeight c) \<and>
   isOverflow (foldl addHeight (newSplitContext d budget dh) hs) h = (sum_list hs + h > budget)"
proof -
  have acc: "accumulatedHeight (foldl addHeight c0 hs) = accumulatedHeight c0 + sum_list hs"
    for c0 :: SplitContext
    by (induction hs arbitrary: c0) (simp_all add: addHeight_def)
  have hgt: "height (foldl addHeight c0 hs) = height c0" for c0 :: SplitContext
    by (induction hs arbitrary: c0) (simp_all add: addHeight_def)
  show ?thesis
    by (simp add: isOverflow_def getAccumulatedHeight_def getHeight_def acc hgt newSplitContext_def)
qed

text \<open>
  A context with page budget 500 to which two nodes of 200 and 280 were added: a
  further 30 overflow it, a further 20 do not.
\<close>

theorem isOverflow_iff_witness:
  "isOverflow (foldl addHeight (newSplitContext empty_doc 500 20) [200, 280]) 30 \<and>
   \<not> isOverflow (foldl addHeight (newSplitContext empty_doc 500 20) [200, 280]) 20"
  using isOverflow_iff [of "newSplitContext empty_doc 500 20" 30 empty_doc 500 20 "[200, 280]"]
        isOverflow_iff [of "newSplitContext empty_doc 500 20" 20 empty_doc 500 20 "[200, 280]"]
  by simp

text \<open>
  C10. For every page state \<open>s\<close> and every transaction, \<open>transform\<close> returns a state
  with the same \<open>bodyOptions\<close>; the three flags are read from the transaction's meta
  alone (the flags of \<open>s\<close> play no part), and each is false when its key is absent.
\<close>

theorem transform_frame:
  "bodyOptions (transform s tr) = bodyOptions s \<and>
   transform s tr = \<lparr>bodyOptions = bodyOptions s, deleting = meta_flag tr ''deleting'',
                     inserting = meta_flag tr ''inserting'', splitPage = meta_flag tr ''splitPage''\<rparr> \<and>
   transform (s\<lparr>deleting := d, inserting := i, splitPage := p\<rparr>) tr = transform s tr \<and>
   (getMeta tr ''deleting'' = None \<longrightarrow> \<not> deleting (transform s tr)) \<and>
   (getMeta tr ''inserting'' = None \<longrightarrow> \<not> inserting (transform s tr)) \<and>
   (getMeta tr ''splitPage'' = None \<longrightarrow> \<not> splitPage (transform s tr)) \<and>
   (getMeta tr ''deleting'' = Some (MetaBool b1) \<longrightarrow> deleting (transform s tr) = b1) \<and>
   (getMeta tr ''inserting'' = Some (MetaBool b2) \<longrightarrow> inserting (transform s tr) = b2) \<and>
   (getMeta tr ''splitPage'' = Some (MetaBool b3) \<longrightarrow> splitPage (transform s tr) = b3)"
  by (simp add: transform_def meta_flag_def Let_def)

theorem transform_frame_witness:
  "getMeta inserting_meta ''deleting'' = None \<and>
   getMeta inserting_meta ''splitPage'' = None \<and>
   getMeta inserting_meta ''inserting'' = Some (MetaBool True) \<and>
   deleting idle_state \<and> splitPage idle_state \<and> \<not> inserting idle_state \<and>
   bodyOptions (transform idle_state inserting_meta) = a4_options \<and>
   \<not> deleting (transform idle_state inserting_meta) \<and>
   \<not> splitPage (transform idle_state inserting_meta) \<and>
   inserting (transform idle_state inserting_meta)"
  using transform_frame [of idle_state inserting_meta False False False False True False]
  by (simp add: getMeta_def meta_flag_def inserting_meta_def idle_state_def)

text \<open>
  Away from NaN the checks of \<open>onBeforeCreate\<close> are the contract: it throws exactly
  when a dimension is missing, non-numeric or \<open>\<le> 0\<close>, and not when both are positive
  numbers.
\<close>

lemma invalid_dimension_iff: "invalid_dimension v = (\<not> positive_number v)"
proof (cases v)
  case (Num n)
  then show ?thesis
    by (cases n) (auto simp: invalid_dimension_def is_missing_def)
qed (simp_all add: invalid_dimension_def is_missing_def)

lemma onBeforeCreate_throws_unless_NaN:
  assumes "bodyHeight options \<noteq> Num NaN" and "bodyWidth options \<noteq> Num NaN"
  shows "throws (onBeforeCreate options) =
           (invalid_dimension (bodyHeight options) \<or> invalid_dimension (bodyWidth options))"
proof -
  have inv: "invalid_dimension v = (is_missing v \<or> not_positive_number v)"
    if "v \<noteq> Num NaN" for v
  proof (cases v)
    case (Num n)
    with that show ?thesis
      by (cases n) (simp_all add: invalid_dimension_def is_missing_def)
  qed (simp_all add: invalid_dimension_def is_missing_def)
  show ?thesis
    using inv [OF assms(1)] inv [OF assms(2)]
    by (auto simp: onBeforeCreate_def throws_def)
qed

lemma onBeforeCreate_positive:
  assumes "positive_number (bodyHeight options)" and "positive_number (bodyWidth options)"
  shows "onBeforeCreate options = Inr (deepMerge DEFAULT_PAGE_OPTIONS options)"
proof -
  have pos: "\<not> is_missing v \<and> \<not> not_positive_number v" if "positive_number v" for v
  proof (cases v)
    case (Num n)
    with that show ?thesis by (cases n) (simp_all add: is_missing_def)
  qed (use that in simp_all)
  show ?thesis
    using pos [OF assms(1)] pos [OF assms(2)] by (simp add: onBeforeCreate_def)
qed

text \<open>
  C7 at a NaN height. NaN is not a number and not a positive number, so the dimension is
  invalid; but its type is number and \<^verbatim>\<open>NaN <= 0\<close> is false, so none of the four
  checks of \<open>onBeforeCreate\<close> throws and the options are kept. With the width 0, a
  string for the height or \<^verbatim>\<open>null\<close> for it, \<open>onBeforeCreate\<close> throws.
\<close>

theorem onBeforeCreate_accepts_NaN:
  "bodyHeight nan_options = Num NaN \<and> bodyWidth nan_options = Num (Finite 816) \<and>
   non_numeric (bodyHeight nan_options) \<and>
   invalid_dimension (bodyHeight nan_options) \<and>
   \<not> positive_number (bodyHeight nan_options) \<and>
   typeof_number (bodyHeight nan_options) \<and> \<not> num_le_zero NaN \<and>
   \<not> throws (onBeforeCreate nan_options) \<and>
   onBeforeCreate nan_options = Inr (deepMerge DEFAULT_PAGE_OPTIONS nan_options) \<and>
   \<not> throws (onBeforeCreate a4_options) \<and>
   onBeforeCreate (a4_options\<lparr>bodyWidth := Num (Finite 0)\<rparr>) = Inl BodyWidthNotPositive \<and>
   onBeforeCreate (a4_options\<lparr>bodyHeight := Str ''1056''\<rparr>) = Inl BodyHeightNotPositive \<and>
   onBeforeCreate (a4_options\<lparr>bodyHeight := Null\<rparr>) = Inl BodyHeightRequired"
  by (simp add: nan_options_def a4_options_def onBeforeCreate_def invalid_dimension_def
      is_missing_def throws_def)

subsection \<open>The text-break search\<close>

lemma lastIndexOf_from_absent:
  "c \<notin> set s \<Longrightarrow> lastIndexOf_from c s i found = found"
  by (induction s arbitrary: i found) auto

lemma lastIndexOf_from_present:
  "c \<in> set s \<Longrightarrow> \<exists>k < length s. lastIndexOf_from c s i found = int (i + k) \<and> s ! k = c"
proof (induction s arbitrary: i found)
  case Nil
  then show ?case by simp
next
  case (Cons x xs)
  show ?case
  proof (cases "c \<in> set xs")
    case True
    from Cons.IH [OF True, of "Suc i" "if x = c then int i else found"]
    obtain k where "k < length xs"
      "lastIndexOf_from c xs (Suc i) (if x = c then int i else found) = int (Suc i + k)"
      "xs ! k = c" by blast
    then have "Suc k < length (x # xs) \<and>
        lastIndexOf_from c (x # xs) i found = int (i + Suc k) \<and> (x # xs) ! Suc k = c"
      by simp
    then show ?thesis by blast
  next
    case False
    with Cons.prems have "x = c" by simp
    with False have "0 < length (x # xs) \<and>
        lastIndexOf_from c (x # xs) i found = int (i + 0) \<and> (x # xs) ! 0 = c"
      by (simp add: lastIndexOf_from_absent)
    then show ?thesis by blast
  qed
qed

lemma lastIndexOf_negative: "lastIndexOf s c < 0 \<longleftrightarrow> c \<notin> set s"
proof (cases "c \<in> set s")
  case True
  from lastIndexOf_from_present [OF True, of 0 "- 1"] show ?thesis
    using True by (auto simp: lastIndexOf_def)
next
  case False
  then show ?thesis by (simp add: lastIndexOf_def lastIndexOf_from_absent)
qed

lemma lastIndexOf_found:
  assumes "\<not> lastIndexOf s c < 0"
  shows "0 \<le> lastIndexOf s c \<and> lastIndexOf s c < int (length s) \<and> s ! nat (lastIndexOf s c) = c"
proof -
  from assms have "c \<in> set s" by (simp add: lastIndexOf_negative)
  from lastIndexOf_from_present [OF this, of 0 "- 1"] show ?thesis
    by (auto simp: lastIndexOf_def)
qed

lemma bsearch_ok:
  "1 \<le> low \<Longrightarrow> high \<le> int (length s) \<Longrightarrow> ok_break s vb \<Longrightarrow> ok_break s (bsearch calc limit s low high vb)"
proof (induction "nat (high - low + 1)" arbitrary: low high vb rule: less_induct)
  case less
  show ?case
  proof (cases "low \<le> high")
    case False
    then show ?thesis using less.prems by (simp add: bsearch.simps)
  next
    case True
    define mid where "mid = (low + high) div 2"
    have mid: "low \<le> mid" "mid \<le> high" "1 \<le> mid" "mid \<le> int (length s)"
      using True less.prems by (auto simp: mid_def)
    define cand where "cand = slice0 s mid"
    have cand: "cand = take (nat mid) s" "int (length cand) = mid"
      using mid by (auto simp: cand_def slice0_def)
    define found where "found = lastIndexOf cand (CHR '' '')"
    define lsi where "lsi = (if found < 0 then int (length cand) else found)"
    define trimmed where "trimmed = slice0 cand lsi"
    define cand' where "cand' = (if length trimmed = 0 then slice0 s 1 else trimmed)"
    define vb' where "vb' = (if lsi > 0 then lsi else int (length cand'))"
    have step: "bsearch calc limit s low high vb =
       (if found < 0 \<and> \<not> int (length cand) > 7 then 0
        else if length trimmed = 0 \<and> \<not> mid > 1 then 0
        else if calc cand' \<le> limit then bsearch calc limit s (mid + 1) high vb'
        else bsearch calc limit s low (mid - 1) vb)"
      unfolding vb'_def cand'_def trimmed_def lsi_def found_def cand_def mid_def
      using True by (subst (1) bsearch.simps) (simp only: Let_def if_True)
    have zero: "ok_break s 0" by (simp add: ok_break_def)
    have lo: "ok_break s (bsearch calc limit s low (mid - 1) vb)"
      using less.hyps [of "mid - 1" low vb] less.prems mid by simp
    have hi: "ok_break s (bsearch calc limit s (mid + 1) high vb')"
      if "\<not> (found < 0 \<and> \<not> int (length cand) > 7)" "\<not> (length trimmed = 0 \<and> \<not> mid > 1)"
    proof -
      have "ok_break s vb'"
      proof (cases "found < 0")
        case True
        with that have "7 < int (length cand)" by simp
        then have big: "7 < mid" by (simp only: cand(2))
        have "\<not> has_space cand" using True by (simp add: found_def lastIndexOf_negative has_space_def)
        moreover have "lsi = mid" using True cand by (simp add: lsi_def)
        ultimately show ?thesis using big mid by (simp add: vb'_def ok_break_def cand_def)
      next
        case False
        from lastIndexOf_found [of cand "CHR '' ''"] False
        have f: "0 \<le> found" "found < mid" "cand ! nat found = CHR '' ''"
          using cand by (auto simp: found_def)
        have lsi: "lsi = found" using False by (simp add: lsi_def)
        have sf: "s ! nat found = CHR '' ''" using f cand mid by simp
        show ?thesis
        proof (cases "found = 0")
          case True
          then have "trimmed = []" by (simp add: trimmed_def lsi slice0_def)
          with that have "1 < mid" by simp
          then have "cand' = take 1 s" "length cand' = 1"
            using \<open>trimmed = []\<close> mid by (auto simp: cand'_def slice0_def)
          moreover have "s \<noteq> []" using mid by auto
          ultimately show ?thesis using True sf lsi
            by (simp add: vb'_def ok_break_def at_space_boundary_def)
        next
          case False
          then show ?thesis using f sf lsi mid
            by (simp add: vb'_def ok_break_def at_space_boundary_def)
        qed
      qed
      then show ?thesis using less.hyps [of high "mid + 1" vb'] less.prems mid by simp
    qed
    show ?thesis using step zero lo hi by auto
  qed
qed

lemma bsearch_no_space_step:
  assumes "low \<le> high" and "\<not> has_space (inspected s low high)"
  shows "bsearch calc limit s low high vb =
     (if 7 < int (length (inspected s low high))
      then (if calc (inspected s low high) \<le> limit
            then bsearch calc limit s ((low + high) div 2 + 1) high (int (length (inspected s low high)))
            else bsearch calc limit s low ((low + high) div 2 - 1) vb)
      else 0)"
proof -
  have neg: "lastIndexOf (slice0 s ((low + high) div 2)) (CHR '' '') < 0"
    using assms(2) by (simp add: lastIndexOf_negative has_space_def inspected_def)
  have full: "slice0 c (int (length c)) = c" for c by (simp add: slice0_def)
  show ?thesis
    using assms(1) neg
    by (subst bsearch.simps) (auto simp: Let_def inspected_def full)
qed


text \<open>
  C8. In every iteration of the search (any \<open>low \<le> high\<close> and any recorded break) whose
  inspected prefix contains no space: a prefix of at most 7 characters ends the search
  with 0; a longer prefix is itself the candidate that is measured, and its length becomes
  the recorded break when it fits. In particular \<open>binarySearchTextBreak\<close> returns 0 when
  the first inspected prefix is such a short one, and on a run without any space it returns
  0 or an offset above 7.
\<close>

theorem no_space_prefix_policy:
  assumes "low \<le> high" and "\<not> has_space (inspected s low high)"
  shows "(int (length (inspected s low high)) \<le> 7 \<longrightarrow> bsearch calc limit s low high vb = 0) \<and>
         (7 < int (length (inspected s low high)) \<longrightarrow>
            bsearch calc limit s low high vb =
              (if calc (inspected s low high) \<le> limit
               then bsearch calc limit s ((low + high) div 2 + 1) high
                      (int (length (inspected s low high)))
               else bsearch calc limit s low ((low + high) div 2 - 1) vb)) \<and>
         (low = 1 \<and> high = int (length s) \<and> vb = 0 \<and> int (length (inspected s low high)) \<le> 7 \<longrightarrow>
            binarySearchTextBreak calc limit s = 0) \<and>
         (\<not> has_space s \<longrightarrow>
            binarySearchTextBreak calc limit s = 0 \<or> 7 < binarySearchTextBreak calc limit s)"
proof -
  note step = bsearch_no_space_step [OF assms, of calc limit vb]
  have short: "bsearch calc limit s low high vb = 0"
    if "int (length (inspected s low high)) \<le> 7"
    using step that by simp
  have long: "bsearch calc limit s low high vb =
              (if calc (inspected s low high) \<le> limit
               then bsearch calc limit s ((low + high) div 2 + 1) high
                      (int (length (inspected s low high)))
               else bsearch calc limit s low ((low + high) div 2 - 1) vb)"
    if "7 < int (length (inspected s low high))"
    using step that by (simp only: if_True)
  have first: "binarySearchTextBreak calc limit s = 0"
    if "low = 1 \<and> high = int (length s) \<and> vb = 0 \<and> int (length (inspected s low high)) \<le> 7"
  proof -
    from that have l: "low = 1" and h: "high = int (length s)" and v: "vb = 0"
      and le: "int (length (inspected s low high)) \<le> 7" by blast+
    from short [OF le] show ?thesis unfolding binarySearchTextBreak_def l h v .
  qed
  have ok: "ok_break s (binarySearchTextBreak calc limit s)"
    unfolding binarySearchTextBreak_def
    by (rule bsearch_ok) (simp_all add: ok_break_def)
  have whole: "binarySearchTextBreak calc limit s = 0 \<or> 7 < binarySearchTextBreak calc limit s"
    if "\<not> has_space s"
  proof -
    have "has_space s" if b: "at_space_boundary s b" for b
    proof -
      from b consider "0 < b" "b < int (length s)" "s ! nat b = CHR '' ''"
        | "s \<noteq> []" "s ! 0 = CHR '' ''"
        by (auto simp: at_space_boundary_def)
      then show ?thesis
      proof cases
        case 1
        then have "nat b < length s" by linarith
        then have "s ! nat b \<in> set s" by (rule nth_mem)
        with 1 show ?thesis by (simp add: has_space_def)
      next
        case 2
        then have "0 < length s" by simp
        then have "s ! 0 \<in> set s" by (rule nth_mem)
        with 2 show ?thesis by (simp add: has_space_def)
      qed
    qed
    with that have "\<not> at_space_boundary s (binarySearchTextBreak calc limit s)" by blast
    with ok show ?thesis by (simp add: ok_break_def) blast
  qed
  from short long first whole show ?thesis by blast
qed

theorem no_space_prefix_policy_witness:
  "(1::int) \<le> 10 \<and> \<not> has_space (inspected ''abcdefghij'' 1 10) \<and>
   int (length (inspected ''abcdefghij'' 1 10)) \<le> 7 \<and>
   bsearch chars_height 100 ''abcdefghij'' 1 10 0 = 0 \<and>
   binarySearchTextBreak chars_height 100 ''abcdefghij'' = 0"
  using no_space_prefix_policy [of 1 10 "''abcdefghij''" chars_height 100 0]
  by (simp add: inspected_def has_space_def slice0_def)

text \<open>
  C2, as the code has it. A non-zero break offset returned by the search lies at a space
  boundary of the run, unless the prefix it cuts off contains no space; such a prefix is
  longer than 7 characters.
\<close>

theorem text_break_space_boundary_or_long:
  assumes "binarySearchTextBreak calc limit s \<noteq> 0"
  shows "at_space_boundary s (binarySearchTextBreak calc limit s) \<or>
         (7 < binarySearchTextBreak calc limit s \<and>
          binarySearchTextBreak calc limit s \<le> int (length s) \<and>
          \<not> has_space (slice0 s (binarySearchTextBreak calc limit s)))"
proof -
  have "ok_break s (binarySearchTextBreak calc limit s)"
    unfolding binarySearchTextBreak_def
    by (rule bsearch_ok) (simp_all add: ok_break_def)
  with assms show ?thesis by (simp add: ok_break_def)
qed

theorem text_break_space_boundary_or_long_witness:
  "binarySearchTextBreak chars_height 8 ''hello world foo'' = 5 \<and>
   at_space_boundary ''hello world foo'' 5"
proof -
  have v: "binarySearchTextBreak chars_height 8 ''hello world foo'' = 5"
    by (simp add: binarySearchTextBreak_def bsearch.simps slice0_def lastIndexOf_def chars_height_def)
  from text_break_space_boundary_or_long [of chars_height 8 "''hello world foo''"] v
  show ?thesis by (simp add: slice0_def has_space_def)
qed

text \<open>
  The word-boundary property of the specification fails as it is stated: a run of 16
  letters of which 12 fit is cut at offset 12, inside the word, although the run is not
  shorter than 7 characters.
\<close>

theorem text_break_inside_word_counterexample:
  "binarySearchTextBreak chars_height 12 ''aaaaaaaaaaaaaaaa'' = 12 \<and>
   inside_word ''aaaaaaaaaaaaaaaa'' 12 \<and>
   \<not> at_space_boundary ''aaaaaaaaaaaaaaaa'' 12 \<and>
   \<not> length ''aaaaaaaaaaaaaaaa'' < 7"
  by (simp add: binarySearchTextBreak_def bsearch.simps slice0_def lastIndexOf_def
      chars_height_def inside_word_def at_space_boundary_def)

subsection \<open>Duplicate ids\<close>

text \<open>
  C1, as the code has it. When the walk reaches a non-text node whose id is already
  recorded, the node of the two with the strictly larger size is the target and the
  other one is kept in the map (on equal sizes the recorded node is kept): a delete
  operation over the target's range is recorded exactly when the text of the kept node
  contains the text of the target and the target has children; otherwise a change-id
  operation at the target's position is recorded. The walk does not go below the node.
\<close>

theorem duplicate_id_clash:
  assumes "attr_id (attrs node) = Some i" and "i \<noteq> []" and "type_name node \<noteq> ''text''"
    and "idMap st i = Some (old, oldPos)"
  shows "visit st node p =
     (if nodeSize old > nodeSize node
      then (\<lparr>idMap = (idMap st)(i \<mapsto> (node, p)),
             operations = operations st @
               [if str_includes (textContent node) (textContent old) \<and> children old \<noteq> []
                then Delete (oldPos + 1) (oldPos + nodeSize old + 1)
                else ChangeId oldPos]\<rparr>, False)
      else (\<lparr>idMap = (idMap st)(i \<mapsto> (old, oldPos)),
             operations = operations st @
               [if str_includes (textContent old) (textContent node) \<and> children node \<noteq> []
                then Delete (p + 1) (p + nodeSize node + 1)
                else ChangeId p]\<rparr>, False))"
  using assms
  by (simp add: visit_def falsy_id_def delete_and_preserve_def clash_operation_def
      shouldDelete_def Let_def)

theorem duplicate_id_clash_witness:
  "attr_id (attrs (para_node ''X'' ''Hello world'')) = Some ''X'' \<and>
   type_name (para_node ''X'' ''Hello world'') \<noteq> ''text'' \<and>
   idMap hello_scan ''X'' = Some (para_node ''X'' ''Hello'', 1) \<and>
   nodeSize (para_node ''X'' ''Hello'') = 7 \<and> nodeSize (para_node ''X'' ''Hello world'') = 13 \<and>
   operations (fst (visit hello_scan (para_node ''X'' ''Hello world'') 8)) = [ChangeId 8] \<and>
   idMap (fst (visit hello_scan (para_node ''X'' ''Hello world'') 8)) ''X''
     = Some (para_node ''X'' ''Hello'', 1) \<and>
   \<not> snd (visit hello_scan (para_node ''X'' ''Hello world'') 8)"
proof -
  have a: "attr_id (attrs (para_node ''X'' ''Hello world'')) = Some ''X''"
    and t: "type_name (para_node ''X'' ''Hello world'') \<noteq> ''text''"
    and m: "idMap hello_scan ''X'' = Some (para_node ''X'' ''Hello'', 1)"
    by (simp_all add: para_node_def hello_scan_def PARAGRAPH_def)
  have n: "(''X''::string) \<noteq> []" by simp
  have inc: "\<not> str_includes (textContent (para_node ''X'' ''Hello''))
                 (textContent (para_node ''X'' ''Hello world''))"
    by (simp add: str_includes_def para_node_def sublist_code prefix_code)
  have ops: "operations hello_scan = []" by (simp add: hello_scan_def)
  from duplicate_id_clash [OF a n t m, of 8] inc a t m ops show ?thesis
    by (simp add: para_node_def)
qed

text \<open>
  Keeping the larger node, as the specification has it, fails on \<open>hello_doc\<close>:
  the paragraph \<open>Hello world\<close> is the larger node, its text contains
  \<open>Hello\<close>, and the smaller paragraph has a child; the specification asks for
  the deletion of the smaller paragraph (the range from position 2). The code records one
  operation, a change of id at position 8, the position of the larger paragraph.
\<close>

theorem dedupe_keeps_smaller_counterexample:
  "duplicate_id_operations hello_doc = [ChangeId 8] \<and>
   descendants hello_doc ! 1 = (para_node ''X'' ''Hello'', 1) \<and>
   descendants hello_doc ! 3 = (para_node ''X'' ''Hello world'', 8) \<and>
   nodeSize (para_node ''X'' ''Hello'') < nodeSize (para_node ''X'' ''Hello world'') \<and>
   str_includes (textContent (para_node ''X'' ''Hello world'')) (textContent (para_node ''X'' ''Hello'')) \<and>
   children (para_node ''X'' ''Hello'') \<noteq> []"
  by (simp add: duplicate_id_operations_def hello_doc_def doc_node_def page_node_def para_node_def
      visit_def falsy_id_def no_attrs_def PAGE_def PARAGRAPH_def delete_and_preserve_def
      clash_operation_def shouldDelete_def str_includes_def fragment_size_def Let_def
      descendants_def sublist_code prefix_code)

subsection \<open>Ordered lists\<close>

text \<open>
  C3 at \<open>nested_list_doc\<close>, cut right before item \<open>c\<close> (position 24, inside the outer
  list, two of whose items precede the cut): the code counts the two items of the nested
  list as well and stamps the reopened list with start 5. On the flat list the start is 3.
\<close>

theorem ordered_list_start_counts_nested_items:
  "calculateOrderedListStart nested_list_doc 24 = Inr 5 \<and>
   map_sum id (\<lambda>path. (type_name (path_node path (path_depth path)),
                         attr_id (attrs (path_node path (path_depth path))),
                         path_index path (path_depth path)))
     (resolve nested_list_doc 24) = Inr (ORDEREDLIST, Some ''L'', 2) \<and>
   map_sum id attr_start
     (reopened_attrs plain_schema nested_list_doc 24 (ordered_list ''L'' []) ''fresh'') = Inr (Some 5) \<and>
   calculateOrderedListStart flat_list_doc 12 = Inr 3 \<and>
   calculateOrderedListStart flat_list_doc 1 = Inr 1"
  by code_simp

subsection \<open>Merging pages\<close>

text \<open>
  C4, as the code has it. In every iteration of the merge loop the join depth is 2
  exactly when the document has more than one page, the first child of the last page
  carries the extend flag, and either its type is the type of the last child of the page
  before it or its type name contains \<open>Extend\<close>; otherwise the depth is 1. While more
  than \<open>count\<close> pages exist, the loop joins at that depth and goes on with the joined
  document.
\<close>

theorem merge_depth_choice:
  "(mergeDepth d = 2 \<longleftrightarrow>
      childCount d > 1 \<and>
      (\<exists>f. firstChild (last (children d)) = Some f \<and> attr_extend (attrs f) = Some True \<and>
           (Some (type_name f) = map_option type_name (lastChild (children d ! (childCount d - 2))) \<or>
            str_includes (type_name f) EXTEND))) \<and>
   (mergeDepth d \<noteq> 2 \<longrightarrow> mergeDepth d = 1) \<and>
   (childCount d > count \<longrightarrow>
      mergeDefaultDocument join count d =
        Option.bind (join d (joinPos d) (mergeDepth d)) (mergeDefaultDocument join count)) \<and>
   (\<not> childCount d > count \<longrightarrow> mergeDefaultDocument join count d = Some d)"
proof -
  have deep: "canMergeDeep prePage lastPage \<longleftrightarrow>
      (\<exists>f. firstChild lastPage = Some f \<and> attr_extend (attrs f) = Some True \<and>
           (Some (type_name f) = map_option type_name (lastChild prePage) \<or>
            str_includes (type_name f) EXTEND))" for prePage lastPage
    by (cases "firstChild lastPage") (auto simp: canMergeDeep_def)
  have two: "mergeDepth d = 2 \<longleftrightarrow>
      childCount d > 1 \<and> canMergeDeep (children d ! (childCount d - 2)) (last (children d))"
    by (simp add: mergeDepth_def)
  have one: "mergeDepth d \<noteq> 2 \<longrightarrow> mergeDepth d = 1"
    by (simp add: mergeDepth_def)
  have loop: "mergeDefaultDocument join count d =
     (if childCount d > count
      then Option.bind (join d (joinPos d) (mergeDepth d)) (mergeDefaultDocument join count)
      else Some d)"
    by (rule mergeDefaultDocument.simps)
  show ?thesis using two one loop by (simp add: deep)
qed

theorem merge_depth_choice_witness:
  "mergeDepth continued_doc = 2 \<and> childCount continued_doc > 1 \<and>
   mergeDepth two_page_doc = 1 \<and>
   mergeDefaultDocument join_last_pages 1 continued_doc =
     Some (doc_node [page_node ''p1''
       [BlockNode PARAGRAPH (no_attrs\<lparr>attr_id := Some ''a'', attr_extend := Some False\<rparr>)
          [TextNode ''hello '', TextNode ''world'']]])"
proof -
  define joined where "joined = doc_node [page_node ''p1''
       [BlockNode PARAGRAPH (no_attrs\<lparr>attr_id := Some ''a'', attr_extend := Some False\<rparr>)
          [TextNode ''hello '', TextNode ''world'']]]"
  have c2: "childCount continued_doc > 1" and c1: "\<not> childCount joined > 1"
    by (simp_all add: continued_doc_def joined_def doc_node_def childCount_def)
  have d2: "mergeDepth continued_doc = 2"
    using merge_depth_choice [where d = continued_doc and count = 1 and join = join_last_pages]
    by (simp add: continued_doc_def doc_node_def page_node_def para_node_def
        continued_paragraph_def childCount_def firstChild_def lastChild_def PARAGRAPH_def)
  have d1: "mergeDepth two_page_doc = 1"
    using merge_depth_choice [where d = two_page_doc and count = 1 and join = join_last_pages]
    by (simp add: two_page_doc_def doc_node_def page_node_def para_node_def
        childCount_def firstChild_def lastChild_def PARAGRAPH_def)
  have j: "join_last_pages continued_doc (joinPos continued_doc) 2 = Some joined"
    by (simp add: join_last_pages_def continued_doc_def doc_node_def page_node_def para_node_def
        continued_paragraph_def joined_def)
  have "mergeDefaultDocument join_last_pages 1 continued_doc =
          Option.bind (join_last_pages continued_doc (joinPos continued_doc) (mergeDepth continued_doc))
            (mergeDefaultDocument join_last_pages 1)"
    using merge_depth_choice [where d = continued_doc and count = 1 and join = join_last_pages] c2
    by blast
  also have "\<dots> = mergeDefaultDocument join_last_pages 1 joined"
    by (simp add: d2 j)
  also have "\<dots> = Some joined"
    using merge_depth_choice [where d = joined and count = 1 and join = join_last_pages] c1
    by blast
  finally have "mergeDefaultDocument join_last_pages 1 continued_doc = Some joined" .
  with c2 d2 d1 show ?thesis unfolding joined_def by blast
qed

text \<open>
  Matching kinds are not needed for depth 2, as \<open>extend_doc\<close> shows: the first
  child of the last page is a \<open>NodeExtend\<close> block with the extend flag, the last
  child of the page before it is a paragraph; the kinds do not match and the depth is 2.
\<close>

theorem merge_depth_extend_type_counterexample:
  "mergeDepth extend_doc = 2 \<and>
   firstChild (last (children extend_doc)) = Some extend_block \<and>
   lastChild (children extend_doc ! 0) = Some (para_node ''a'' ''first'') \<and>
   type_name extend_block = ''NodeExtend'' \<and>
   type_name (para_node ''a'' ''first'') = ''paragraph'' \<and>
   attr_extend (attrs extend_block) = Some True"
  by (simp add: mergeDepth_def canMergeDeep_def extend_doc_def extend_block_def doc_node_def
      page_node_def para_node_def childCount_def firstChild_def lastChild_def
      CASSIE_BLOCK_EXTEND_def CASSIE_BLOCK_def EXTEND_def PARAGRAPH_def str_includes_def
      sublist_code prefix_code)

subsection \<open>The paragraph decision\<close>

text \<open>
  C5, as the code has it. For a paragraph that overflows and for which no interior break
  is found (the search is not tried, or answers nothing): when the paragraph is the first
  child of its container, the boundary is set at the parent level, at the offset of the
  second-to-last chunk of the resolved path with depth two less than the number of
  chunks, provided that chunk exists and its offset is not 0; otherwise the context is
  left as it is, without a boundary of this node. When the paragraph is not the first
  child, the boundary is set at its own position, with depth one less than the number of
  chunks.
\<close>

theorem paragraph_boundary_without_break:
  assumes "isOverflow c pHeight" and "splitResolve c p = Inr chunks"
    and "\<not> pHeight > getDefaultHeight c \<or> point = None \<or> point = Some 0"
  shows "(isFirst \<and> 2 \<le> length chunks \<and> snd (snd (chunks ! (length chunks - 2))) \<noteq> 0 \<longrightarrow>
            defaultNodesComputed_PARAGRAPH c pHeight point isFirst p =
              Inr (setBoundary c (snd (snd (chunks ! (length chunks - 2))))
                     (int (length chunks) - 2), False)) \<and>
         (isFirst \<and> (length chunks < 2 \<or> snd (snd (chunks ! (length chunks - 2))) = 0) \<longrightarrow>
            defaultNodesComputed_PARAGRAPH c pHeight point isFirst p = Inr (c, False)) \<and>
         (\<not> isFirst \<longrightarrow>
            defaultNodesComputed_PARAGRAPH c pHeight point isFirst p =
              Inr (setBoundary c p (int (length chunks) - 1), False))"
proof -
  have nobreak: "(if pHeight > getDefaultHeight c then point else None) = None \<or>
                 (if pHeight > getDefaultHeight c then point else None) = Some 0"
    using assms(3) by auto
  obtain n i off where chunk: "chunks ! (length chunks - 2) = (n, i, off)"
    by (cases "chunks ! (length chunks - 2)") auto
  show ?thesis
    using assms(1,2) nobreak chunk
    by (cases off) (auto simp: defaultNodesComputed_PARAGRAPH_def parent_chunk_def)
qed

theorem paragraph_boundary_without_break_witness:
  "isOverflow (newSplitContext two_page_doc 100 20) 150 \<and>
   map_sum id (map (\<lambda>(n, i, off). (type_name n, i, off))) (splitResolve (newSplitContext two_page_doc 100 20) 10)
     = Inr [(''doc'', 1, 9), (''page'', 0, 10)] \<and>
   defaultNodesComputed_PARAGRAPH (newSplitContext two_page_doc 100 20) 150 None True 10 =
     Inr (setBoundary (newSplitContext two_page_doc 100 20) 9 0, False) \<and>
   defaultNodesComputed_PARAGRAPH (newSplitContext two_page_doc 100 20) 150 None False 10 =
     Inr (setBoundary (newSplitContext two_page_doc 100 20) 10 1, False)"
proof -
  define c where "c = newSplitContext two_page_doc 100 20"
  define chunks where "chunks = resolve_in two_page_doc (children two_page_doc) 0 0 10"
  have o: "isOverflow c 150" by (simp add: c_def isOverflow_def newSplitContext_def)
  have r: "splitResolve c 10 = Inr chunks"
    by (simp add: c_def chunks_def splitResolve_def newSplitContext_def resolve_def
        two_page_doc_def doc_node_def page_node_def para_node_def content_size_def fragment_size_def)
  have ch: "map (\<lambda>(n, i, off). (type_name n, i, off)) chunks = [(''doc'', 1, 9), (''page'', 0, 10)]"
    by (simp add: chunks_def two_page_doc_def doc_node_def page_node_def para_node_def PAGE_def)
  then have len: "length chunks = 2"
    by (metis length_map length_Cons list.size(3) numeral_2_eq_2)
  from ch len have off: "snd (snd (chunks ! 0)) = 9"
    by (cases chunks) auto
  note thm1 = paragraph_boundary_without_break [of c 150 10 chunks None True, OF o r]
  note thm2 = paragraph_boundary_without_break [of c 150 10 chunks None False, OF o r]
  show ?thesis
    using thm1 thm2 o r ch len off by (simp add: c_def [symmetric])
qed

text \<open>
  For the first paragraph of the first page the parent-level boundary of the
  specification is not set: the offset of the parent-level chunk is 0, and the context
  keeps no boundary.
\<close>

theorem first_paragraph_no_boundary_counterexample:
  "isOverflow (newSplitContext one_paragraph_doc 100 20) 150 \<and>
   map_sum id (map (\<lambda>(n, i, off). (type_name n, i, off)))
     (splitResolve (newSplitContext one_paragraph_doc 100 20) 1) = Inr [(''doc'', 0, 0), (''page'', 0, 1)] \<and>
   descendants one_paragraph_doc ! 1 = (para_node ''a'' ''a long paragraph'', 1) \<and>
   firstChild (fst (descendants one_paragraph_doc ! 0)) = Some (para_node ''a'' ''a long paragraph'') \<and>
   map_sum id (\<lambda>r. (pageBoundary (fst r), snd r))
     (defaultNodesComputed_PARAGRAPH (newSplitContext one_paragraph_doc 100 20) 150 None True 1)
     = Inr (None, False)"
  by (simp add: defaultNodesComputed_PARAGRAPH_def isOverflow_def newSplitContext_def
      splitResolve_def resolve_def one_paragraph_doc_def doc_node_def page_node_def para_node_def
      content_size_def fragment_size_def getDefaultHeight_def parent_chunk_def descendants_def
      firstChild_def PAGE_def)

subsection \<open>The empty leading page\<close>




end
